theory Spec2Isabelle
  imports Main "HOL-Library.Char_ord" "HOL-Library.List_Lexorder"
begin

section \<open>Python values, exceptions and the environment\<close>

text \<open>
  The client (\<^verbatim>\<open>pycheckoutcli.py\<close>, class \<^verbatim>\<open>CheckoutCli\<close>) is dynamically typed:
  payloads are nested dicts and lists of JSON-like values, and most checks are run-time
  type tests. Values are therefore one datatype. A \<^verbatim>\<open>str\<close> is a list of characters, a
  \<^verbatim>\<open>dict\<close> with string keys is an association list in insertion order (the order in which
  Python 3.7+ iterates it), a \<^verbatim>\<open>float\<close> is kept as mantissa and exponent (the code never
  computes with one, it only tests its type).

  Every \<^verbatim>\<open>raise\<close> of the source, and every exception the interpreter raises on the
  modelled paths, is a value of \<open>pyerror\<close>; a function that can raise returns
  \<open>pyerror + 'a\<close>. The texts of the interpreter's own \<^verbatim>\<open>TypeError\<close>s follow CPython 3.
\<close>

datatype pyval =
    PNone
  | PBool bool
  | PInt int
  | PFloat int int
  | PStr string
  | PList "pyval list"
  | PDict "(string \<times> pyval) list"

type_synonym py_dict = "(string \<times> pyval) list"

datatype pyerror =
    KeyError string
  | ValueError string
  | TypeError string
  | NameError string
  | UnboundLocalError string
  | Exception string
  | ConnectionError

definition py_bind :: "pyerror + 'a \<Rightarrow> ('a \<Rightarrow> pyerror + 'b) \<Rightarrow> pyerror + 'b" where
  "py_bind r k = (case r of Inl e \<Rightarrow> Inl e | Inr v \<Rightarrow> k v)"

definition and_then :: "pyerror + unit \<Rightarrow> pyerror + 'a \<Rightarrow> pyerror + 'a" where
  "and_then r k = (case r of Inl e \<Rightarrow> Inl e | Inr _ \<Rightarrow> k)"

fun type_name :: "pyval \<Rightarrow> string" where
  "type_name PNone = ''NoneType''"
| "type_name (PBool b) = ''bool''"
| "type_name (PInt i) = ''int''"
| "type_name (PFloat m e) = ''float''"
| "type_name (PStr s) = ''str''"
| "type_name (PList xs) = ''list''"
| "type_name (PDict d) = ''dict''"

definition quoted :: "string \<Rightarrow> string" where
  "quoted s = [CHR 0x27] @ s @ [CHR 0x27]"

text \<open>\<^verbatim>\<open>sub in s\<close> on two strings: \<open>sub\<close> occurs in \<open>s\<close> as a contiguous run.\<close>

fun starts_with :: "string \<Rightarrow> string \<Rightarrow> bool" where
  "starts_with s [] = True"
| "starts_with [] (c # sub) = False"
| "starts_with (d # s) (c # sub) = (d = c \<and> starts_with s sub)"

fun str_contains :: "string \<Rightarrow> string \<Rightarrow> bool" where
  "str_contains [] sub = (sub = [])"
| "str_contains (d # s) sub = (starts_with (d # s) sub \<or> str_contains s sub)"

text \<open>\<^verbatim>\<open>key in container\<close> for a \<^verbatim>\<open>str\<close> key.\<close>

fun py_contains :: "pyval \<Rightarrow> string \<Rightarrow> pyerror + bool" where
  "py_contains (PDict d) key = Inr (map_of d key \<noteq> None)"
| "py_contains (PList xs) key = Inr (PStr key \<in> set xs)"
| "py_contains (PStr s) key = Inr (str_contains s key)"
| "py_contains v key =
     Inl (TypeError (''argument of type '' @ quoted (type_name v) @ '' is not iterable''))"

text \<open>\<^verbatim>\<open>container[key]\<close> for a \<^verbatim>\<open>str\<close> key.\<close>

fun py_getitem :: "pyval \<Rightarrow> string \<Rightarrow> pyerror + pyval" where
  "py_getitem (PDict d) key = (case map_of d key of None \<Rightarrow> Inl (KeyError key) | Some v \<Rightarrow> Inr v)"
| "py_getitem (PList xs) key = Inl (TypeError ''list indices must be integers or slices, not str'')"
| "py_getitem (PStr s) key = Inl (TypeError ''string indices must be integers'')"
| "py_getitem v key = Inl (TypeError (quoted (type_name v) @ '' object is not subscriptable''))"

text \<open>\<^verbatim>\<open>d[key] = v\<close>: an existing key keeps its place, a new key goes last.\<close>

fun dict_setitem :: "py_dict \<Rightarrow> string \<Rightarrow> pyval \<Rightarrow> py_dict" where
  "dict_setitem [] key v = [(key, v)]"
| "dict_setitem ((k, w) # d) key v =
     (if k = key then (k, v) # d else (k, w) # dict_setitem d key v)"

text \<open>\<^verbatim>\<open>sep.join(items)\<close>.\<close>

fun py_join :: "string \<Rightarrow> string list \<Rightarrow> string" where
  "py_join sep [] = []"
| "py_join sep [x] = x"
| "py_join sep (x # y # ys) = x @ sep @ py_join sep (y # ys)"

text \<open>
  The \<^verbatim>\<open>requests\<close> library is the transport, outside the repository. The network is a
  state: the responses the server will give, in order, and the requests sent so far.
  A send takes the next response and records the request; with no response left the
  library raises \<^verbatim>\<open>ConnectionError\<close>.
\<close>

record http_request =
  req_method :: string
  req_url :: string
  req_headers :: py_dict
  req_data :: pyval
  req_params :: pyval

record http_response =
  status_code :: int
  content :: string

record network =
  pending :: "http_response list"
  sent :: "http_request list"

definition requests_send :: "http_request \<Rightarrow> network \<Rightarrow> (pyerror + http_response) \<times> network" where
  "requests_send rq net =
     (case pending net of
        [] \<Rightarrow> (Inl ConnectionError, net\<lparr>sent := sent net @ [rq]\<rparr>)
      | r # rs \<Rightarrow> (Inr r, net\<lparr>pending := rs, sent := sent net @ [rq]\<rparr>))"

section \<open>The client object\<close>

text \<open>
  The attributes \<^verbatim>\<open>_is_test_mode\<close>, \<^verbatim>\<open>_base_api_end_point\<close>, \<^verbatim>\<open>_merchant_id\<close>,
  \<^verbatim>\<open>_secret_key\<close>, \<^verbatim>\<open>_algorithm\<close> and \<^verbatim>\<open>_accepted_api_type\<close> of \<^verbatim>\<open>self\<close>. Credentials are
  strings or absent (\<^verbatim>\<open>None\<close>), so \<^verbatim>\<open>str(secret_key)\<close> is the string itself.
\<close>

record checkout_cli =
  self_is_test_mode :: int
  self_base_api_end_point :: string
  self_merchant_id :: string
  self_secret_key :: string
  self_algorithm :: string
  self_accepted_api_type :: "string list"

definition CheckoutCli_init :: "int \<Rightarrow> string option \<Rightarrow> string option \<Rightarrow> pyerror + checkout_cli" where
  "CheckoutCli_init is_test_mode merchant_id secret_key =
     (if is_test_mode = 1 then
        Inr \<lparr>self_is_test_mode = is_test_mode,
             self_base_api_end_point = ''https://api.checkout.fi'',
             self_merchant_id = ''375917'',
             self_secret_key = ''SAIPPUAKAUPPIAS'',
             self_algorithm = ''sha256'',
             self_accepted_api_type = [''Payments'', ''PaymentDetails'', ''Refund'', ''ListProviders'']\<rparr>
      else
        (case merchant_id of
           None \<Rightarrow> Inl (KeyError ''Missing merchant id'')
         | Some m \<Rightarrow>
           (case secret_key of
              None \<Rightarrow> Inl (KeyError ''Missing secret key'')
            | Some s \<Rightarrow>
              Inr \<lparr>self_is_test_mode = is_test_mode,
                   self_base_api_end_point = ''https://api.checkout.fi'',
                   self_merchant_id = m,
                   self_secret_key = s,
                   self_algorithm = ''sha256'',
                   self_accepted_api_type =
                     [''Payments'', ''PaymentDetails'', ''Refund'', ''ListProviders'']\<rparr>)))"

section \<open>URLs and headers\<close>

definition validate_trans_id_data :: "pyval \<Rightarrow> pyerror + unit" where
  "validate_trans_id_data transaction_id =
     (if transaction_id = PNone \<or> transaction_id = PStr '''' then
        Inl (ValueError ''Undefined transaction id'')
      else Inr ())"

text \<open>\<^verbatim>\<open>prefix + x\<close> with \<open>prefix\<close> a \<^verbatim>\<open>str\<close>: only a \<^verbatim>\<open>str\<close> can be appended.\<close>

fun str_add :: "string \<Rightarrow> pyval \<Rightarrow> pyerror + string" where
  "str_add prefix (PStr s) = Inr (prefix @ s)"
| "str_add prefix v =
     Inl (TypeError (''can only concatenate str (not \"'' @ type_name v @ ''\") to str''))"

text \<open>The result is \<^verbatim>\<open>None\<close> for an \<open>api_type\<close> that is none of the four.\<close>

definition get_post_url :: "checkout_cli \<Rightarrow> string \<Rightarrow> pyval \<Rightarrow> pyerror + string option" where
  "get_post_url self api_type transaction_id =
     (if api_type = ''Payments'' then
        Inr (Some (self_base_api_end_point self @ ''/payments''))
      else if api_type = ''PaymentDetails'' then
        and_then (validate_trans_id_data transaction_id)
          (py_bind (str_add (self_base_api_end_point self @ ''/payments/'') transaction_id)
             (\<lambda>post_url. Inr (Some post_url)))
      else if api_type = ''Refund'' then
        and_then (validate_trans_id_data transaction_id)
          (py_bind (str_add (self_base_api_end_point self @ ''/payments/'') transaction_id)
             (\<lambda>post_url. Inr (Some (post_url @ ''/refund''))))
      else if api_type = ''ListProviders'' then
        Inr (Some (self_base_api_end_point self @ ''/merchants/payment-providers''))
      else Inr None)"

text \<open>
  \<open>now\<close> is what \<^verbatim>\<open>datetime.now().strftime('%Y-%m-%dT%H%M%S')\<close> gives at the call. The
  local variable \<^verbatim>\<open>time_stamp\<close> is assigned only under \<^verbatim>\<open>if time_stamp_string is None\<close>;
  it is \<open>None\<close> here while unbound, and reading it unbound raises
  \<^verbatim>\<open>UnboundLocalError\<close>.
\<close>

definition get_req_header_dict ::
  "checkout_cli \<Rightarrow> string \<Rightarrow> string \<Rightarrow> string \<Rightarrow> pyval \<Rightarrow> pyval \<Rightarrow> pyval \<Rightarrow> pyerror + py_dict" where
  "get_req_header_dict self now api_type method request_id trans_id time_stamp_string =
     (if api_type \<notin> set (self_accepted_api_type self) then
        Inl (ValueError ''Invalid value in api_type parameter'')
      else if (api_type = ''PaymentDetails'' \<or> api_type = ''Refund'') \<and> trans_id = PNone then
        Inl (KeyError ''Missing data to trans_id parameter'')
      else
        let time_stamp = (if time_stamp_string = PNone then Some now else None) in
        (case time_stamp of
           None \<Rightarrow> Inl (UnboundLocalError ''time_stamp'')
         | Some ts \<Rightarrow>
           let header_dict =
                 [(''checkout-account'', PStr (self_merchant_id self)),
                  (''checkout-algorithm'', PStr (self_algorithm self)),
                  (''checkout-method'', PStr method),
                  (''checkout-nonce'', request_id),
                  (''checkout-timestamp'', PStr ts)]
           in Inr (if api_type = ''PaymentDetails'' \<or> api_type = ''Refund''
                   then dict_setitem header_dict ''checkout-transaction-id'' trans_id
                   else header_dict)))"

section \<open>Signing\<close>

text \<open>
  The keyword arguments of \<^verbatim>\<open>get_hash_sha256\<close>: \<^verbatim>\<open>headers\<close>, a dict, and \<^verbatim>\<open>body\<close>, a
  \<^verbatim>\<open>str\<close> or \<^verbatim>\<open>None\<close>; each may be left out (outer \<open>None\<close>).
\<close>

record hash_kwargs =
  kw_headers :: "py_dict option"
  kw_body :: "string option option"

text \<open>\<^verbatim>\<open>header_dict[key]\<close> where \<open>header_dict\<close> is a list and \<open>key\<close> a \<^verbatim>\<open>str\<close>.\<close>

definition list_getitem_str :: "string list \<Rightarrow> string \<Rightarrow> pyerror + string" where
  "list_getitem_str xs key = Inl (TypeError ''list indices must be integers or slices, not str'')"

text \<open>The loop \<^verbatim>\<open>for key in sorted(header_dict): ... items.append(...)\<close>.\<close>

fun header_items :: "string list \<Rightarrow> string list \<Rightarrow> pyerror + string list" where
  "header_items header_dict [] = Inr []"
| "header_items header_dict (key # keys) =
     py_bind (list_getitem_str header_dict key) (\<lambda>v.
       py_bind (header_items header_dict keys) (\<lambda>items.
         Inr ((key @ '':'' @ v) # items)))"

text \<open>
  \<^verbatim>\<open>header_dict = sorted(kwargs["headers"])\<close> is the sorted list of the keys, not the dict.
  After the loop the message is assembled, and then the module reads \<^verbatim>\<open>sys.version_info\<close>:
  the file imports \<^verbatim>\<open>logging\<close>, \<^verbatim>\<open>requests\<close>, \<^verbatim>\<open>hmac\<close>, \<^verbatim>\<open>six\<close> and \<^verbatim>\<open>datetime\<close>, and
  neither \<^verbatim>\<open>sys\<close> nor \<^verbatim>\<open>hashlib\<close>, so the read raises \<^verbatim>\<open>NameError\<close> and the call of
  \<^verbatim>\<open>hmac.new\<close> below it is never reached.
\<close>

definition get_hash_sha256 :: "checkout_cli \<Rightarrow> hash_kwargs \<Rightarrow> pyerror + string" where
  "get_hash_sha256 self kwargs =
     (if kw_headers kwargs = None \<and> kw_body kwargs = None then
        Inl (KeyError ''Expect input parameters'')
      else
        let secret_key = self_secret_key self in
        (case kw_headers kwargs of
           None \<Rightarrow> Inl (KeyError ''headers'')
         | Some hs \<Rightarrow>
           let header_dict = sort (map fst hs);
               body = (case kw_body kwargs of None \<Rightarrow> None | Some b \<Rightarrow> b)
           in py_bind (header_items header_dict (sort header_dict)) (\<lambda>items.
                let items = (case body of None \<Rightarrow> items | Some b \<Rightarrow> items @ [b]);
                    plain_text = py_join [CHR 0x0A] items;
                    plain_text = (if body = None then plain_text @ [CHR 0x0A] else plain_text)
                in Inl (NameError ''sys''))))"

section \<open>Sending\<close>

text \<open>
  \<^verbatim>\<open>**headers\<close> collects the remaining keyword arguments, so it is a dict (empty when
  none is given) and the \<^verbatim>\<open>headers is None\<close> default never applies.
\<close>

definition send_request ::
  "string \<Rightarrow> string option \<Rightarrow> pyval \<Rightarrow> py_dict \<Rightarrow> network \<Rightarrow> (pyerror + http_response) \<times> network" where
  "send_request send_method api_post_url req_input headers net =
     (case api_post_url of
        None \<Rightarrow> (Inl (ValueError ''Need post URL data''), net)
      | Some url \<Rightarrow>
        if url = [] then (Inl (ValueError ''Need post URL data''), net)
        else
          let call =
                (if send_method = ''POST'' then
                   (if req_input = PNone then
                      requests_send \<lparr>req_method = ''POST'', req_url = url, req_headers = headers,
                                     req_data = PNone, req_params = PNone\<rparr> net
                    else
                      requests_send \<lparr>req_method = ''POST'', req_url = url, req_headers = headers,
                                     req_data = req_input, req_params = PNone\<rparr> net)
                 else
                   (if req_input = PNone then
                      requests_send \<lparr>req_method = ''GET'', req_url = url, req_headers = headers,
                                     req_data = PNone, req_params = PNone\<rparr> net
                    else
                      requests_send \<lparr>req_method = ''GET'', req_url = url, req_headers = headers,
                                     req_data = req_input, req_params = req_input\<rparr> net))
          in (case call of
                (Inl e, net') \<Rightarrow> (Inl e, net')
              | (Inr res_obj, net') \<Rightarrow>
                  if status_code res_obj \<noteq> 200 \<and> status_code res_obj \<noteq> 201 then
                    (Inl (Exception (content res_obj)), net')
                  else (Inr res_obj, net')))"

section \<open>Validation of a payment-creation payload\<close>

definition get_create_payment_keys :: "string list" where
  "get_create_payment_keys =
     [''stamp'', ''reference'', ''amount'', ''currency'', ''language'', ''items'', ''customer'',
      ''deliveryAddress'', ''invoicingAddress'', ''redirectUrls'', ''callbackUrls'']"

text \<open>The loop of \<^verbatim>\<open>validate_create_payment_input\<close>; \<^verbatim>\<open>kwargs.get(key, None)\<close> is
  \<^verbatim>\<open>None\<close> for a missing key and for a key whose value is \<^verbatim>\<open>None\<close>.\<close>

fun check_keys_present :: "string list \<Rightarrow> py_dict \<Rightarrow> pyerror + unit" where
  "check_keys_present [] kwargs = Inr ()"
| "check_keys_present (key # keyList) kwargs =
     (let value = (case map_of kwargs key of None \<Rightarrow> PNone | Some v \<Rightarrow> v) in
      if value = PNone then Inl (ValueError (''Missing '' @ key @ '' parameter''))
      else check_keys_present keyList kwargs)"

definition validate_create_payment_input :: "py_dict \<Rightarrow> pyerror + unit" where
  "validate_create_payment_input kwargs =
     (if length kwargs = 0 then Inl (KeyError ''Expect input parameters'')
      else check_keys_present get_create_payment_keys kwargs)"

text \<open>The loop of \<^verbatim>\<open>validate_data_dict\<close> over \<open>key_dict\<close>, whose values are
  \<^verbatim>\<open>True\<close> (mandatory) or \<^verbatim>\<open>False\<close>.\<close>

fun check_data_keys :: "(string \<times> bool) list \<Rightarrow> pyval \<Rightarrow> pyerror + unit" where
  "check_data_keys [] data_dict = Inr ()"
| "check_data_keys ((key, mandatory) # key_dict) data_dict =
     (if mandatory then
        py_bind (py_contains data_dict key) (\<lambda>present.
          if \<not> present then Inl (KeyError (''Missing mandatory key: '' @ key))
          else
            py_bind (py_getitem data_dict key) (\<lambda>value.
              if value = PNone then Inl (KeyError (''Invalid value in '' @ key @ '' parameter''))
              else check_data_keys key_dict data_dict))
      else check_data_keys key_dict data_dict)"

definition validate_data_dict :: "(string \<times> bool) list option \<Rightarrow> pyval \<Rightarrow> pyerror + unit" where
  "validate_data_dict key_dict data_dict =
     (case key_dict of
        None \<Rightarrow> Inl (KeyError ''Missing key mapping data in key_dict parameter'')
      | Some keys \<Rightarrow>
        if data_dict = PNone then Inl (KeyError ''Missing value in data_dict parameter'')
        else check_data_keys keys data_dict)"

definition validate_customer_key_value_in_create_payment :: "pyval \<Rightarrow> pyerror + unit" where
  "validate_customer_key_value_in_create_payment customer_dict =
     (if customer_dict = PNone then Inl (KeyError ''Missing customer_dict parameter'')
      else
        let keySet = [(''firstName'', True), (''lastName'', True), (''email'', True),
                      (''phone'', False), (''vatId'', False)]
        in validate_data_dict (Some keySet) customer_dict)"

fun is_dict :: "pyval \<Rightarrow> bool" where
  "is_dict (PDict d) = True"
| "is_dict v = False"

text \<open>\<^verbatim>\<open>isinstance(value, int)\<close>: \<^verbatim>\<open>bool\<close> is a subclass of \<^verbatim>\<open>int\<close>.\<close>

fun is_int :: "pyval \<Rightarrow> bool" where
  "is_int (PInt i) = True"
| "is_int (PBool b) = True"
| "is_int v = False"

definition validate_language_code2 :: "pyval \<Rightarrow> pyerror + unit" where
  "validate_language_code2 language_code =
     (case language_code of
        PNone \<Rightarrow> Inl (KeyError ''Missing language_code parameter'')
      | PStr code \<Rightarrow>
          if length code > 2 then
            Inl (ValueError
              ''Invalid language code value length. Expected 2 letters of language code'')
          else if code \<noteq> ''FI'' \<and> code \<noteq> ''SV'' \<and> code \<noteq> ''EN'' then
            Inl (ValueError ''Invalid value. Support only FI, SV and EN'')
          else Inr ()
      | _ \<Rightarrow> Inl (ValueError ''Expect string data type for language parameter''))"

text \<open>
  After \<^verbatim>\<open>validate_data_dict\<close> the function tests \<^verbatim>\<open>isinstance(value, six.string_types)\<close>.
  No \<^verbatim>\<open>value\<close> is a parameter, a local or a module-level name here, so the test raises
  \<^verbatim>\<open>NameError\<close>; the length test on \<^verbatim>\<open>data_dict["country"]\<close> and the call
  \<^verbatim>\<open>data_dict["country"].upper()\<close> (whose result the source drops) come after it and are
  never reached. The function returns nothing.
\<close>

definition validate_address_value_in_create_payment :: "pyval \<Rightarrow> pyerror + unit" where
  "validate_address_value_in_create_payment data_dict =
     (if data_dict = PNone then Inl (KeyError ''Missing data_dict parameter'')
      else
        let keySet = [(''streetAddress'', True), (''postalCode'', True), (''city'', True),
                      (''county'', False), (''country'', True)]
        in and_then (validate_data_dict (Some keySet) data_dict)
             (Inl (NameError ''value'')))"

definition validate_int_value :: "string \<Rightarrow> pyval \<Rightarrow> pyerror + unit" where
  "validate_int_value key value =
     (if \<not> is_int value then Inl (ValueError (''Expect int value in '' @ key @ '' parameter''))
      else Inr ())"

definition validate_item_data_in_create_payment :: "pyval \<Rightarrow> pyerror + unit" where
  "validate_item_data_in_create_payment data_dict =
     (if data_dict = PNone then Inl (KeyError ''Missing data_dict parameter'')
      else
        let keySet = [(''unitPrice'', True), (''units'', True), (''vatPercentage'', True),
                      (''productCode'', True), (''deliveryDate'', True), (''description'', False),
                      (''category'', False), (''stamp'', False), (''reference'', False),
                      (''merchant'', False), (''commission'', False)]
        in and_then (validate_data_dict (Some keySet) data_dict)
             (py_bind (py_getitem data_dict ''unitPrice'') (\<lambda>unitPrice.
                and_then (validate_int_value ''unitPrice'' unitPrice)
                  (py_bind (py_getitem data_dict ''units'') (\<lambda>units.
                     and_then (validate_int_value ''units'' units)
                       (py_bind (py_getitem data_dict ''vatPercentage'') (\<lambda>vatPercentage.
                          validate_int_value ''vatPercentage'' vatPercentage)))))))"

definition validate_callback_urls_data :: "pyval \<Rightarrow> pyerror + unit" where
  "validate_callback_urls_data data_dict =
     (if data_dict = PNone then Inl (KeyError ''Missing data_dict parameter'')
      else
        let keySet = [(''success'', True), (''cancel'', True)]
        in validate_data_dict (Some keySet) data_dict)"

section \<open>Creating a payment\<close>

text \<open>The canned payload of test mode. \<^verbatim>\<open>CHR 0xE5\<close> is the letter a with ring of the
  city's name.\<close>

definition get_test_req_create_payment_data :: pyval where
  "get_test_req_create_payment_data =
     PDict
      [(''stamp'', PInt 29858472952),
       (''reference'', PInt 9187445),
       (''amount'', PInt 1590),
       (''currency'', PStr ''EUR''),
       (''language'', PStr ''FI''),
       (''items'', PList
          [PDict
            [(''unitPrice'', PInt 1590),
             (''units'', PInt 1),
             (''vatPercentage'', PInt 24),
             (''productCode'', PStr ''#927502759''),
             (''deliveryDate'', PStr ''2018-03-07''),
             (''description'', PStr ''Cat ladder''),
             (''category'', PStr ''shoe''),
             (''merchant'', PInt 375917),
             (''stamp'', PInt 29858472952),
             (''reference'', PInt 9187445),
             (''commission'', PDict [(''merchant'', PStr ''string''), (''amount'', PInt 0)])]]),
       (''customer'', PDict
          [(''email'', PStr ''john.doe@example.org''),
           (''firstName'', PStr ''John''),
           (''lastName'', PStr ''Doe''),
           (''phone'', PInt 358501234567),
           (''vatId'', PStr ''FI02454583'')]),
       (''deliveryAddress'', PDict
          [(''streetAddress'', PStr ''Fake street 123''),
           (''postalCode'', PStr ''00100''),
           (''city'', PStr (''Lule'' @ [CHR 0xE5])),
           (''county'', PStr ''Norrbotten''),
           (''country'', PStr ''Sweden'')]),
       (''invoicingAddress'', PDict
          [(''streetAddress'', PStr ''Fake street 123''),
           (''postalCode'', PStr ''00100''),
           (''city'', PStr (''Lule'' @ [CHR 0xE5])),
           (''county'', PStr ''Norrbotten''),
           (''country'', PStr ''Sweden'')]),
       (''redirectUrls'', PDict
          [(''success'', PStr ''https://ecom.example.org/success''),
           (''cancel'', PStr ''https://ecom.example.org/cancel'')]),
       (''callbackUrls'', PDict
          [(''success'', PStr ''https://ecom.example.org/success''),
           (''cancel'', PStr ''https://ecom.example.org/cancel'')])]"

text \<open>
  \<^verbatim>\<open>self.validate_create_payment_input(**input_data_dict)\<close>: the argument after \<^verbatim>\<open>**\<close> must
  be a mapping, and its keys become keyword arguments of a method whose first parameter,
  \<^verbatim>\<open>self\<close>, is already bound; a key \<^verbatim>\<open>self\<close> is a second value for that parameter and the
  call raises \<^verbatim>\<open>TypeError\<close> before the body runs. Every other key goes into \<^verbatim>\<open>kwargs\<close>.
\<close>

fun as_kwargs :: "pyval \<Rightarrow> pyerror + py_dict" where
  "as_kwargs (PDict d) =
     (if map_of d ''self'' \<noteq> None then
        Inl (TypeError (''CheckoutCli.validate_create_payment_input() got multiple values ''
                        @ ''for argument '' @ quoted ''self''))
      else Inr d)"
| "as_kwargs v =
     Inl (TypeError (''argument after ** must be a mapping, not '' @ type_name v))"

text \<open>
  \<^verbatim>\<open>create_payment\<close>, statement by statement. Everything up to the send is free of effects,
  so the network is touched by \<open>send_request\<close> alone. \<^verbatim>\<open>input_data_dict["language"].upper()\<close>
  builds a string that the source drops; it changes nothing. The customer is tested for
  being a dict and for nothing else: \<open>validate_customer_key_value_in_create_payment\<close> is not
  called. \<open>validate_item_data_in_create_payment\<close> is given the whole \<^verbatim>\<open>items\<close> list. The
  three assignments into \<open>headers_dict\<close> are made, and the call of \<open>send_request\<close> passes no
  header: its \<^verbatim>\<open>**headers\<close> is the empty dict.
\<close>

definition create_payment ::
  "checkout_cli \<Rightarrow> string \<Rightarrow> pyval \<Rightarrow> pyval \<Rightarrow> pyval \<Rightarrow> network
     \<Rightarrow> (pyerror + http_response) \<times> network" where
  "create_payment self now request_id input_data_dict0 time_stamp_string net =
     (case
        (if request_id = PNone then
           Inl (KeyError ''Missing unique request id value in request_id parameter'')
         else
           py_bind
             (if self_is_test_mode self = 1 then
                (if input_data_dict0 = PNone then Inr get_test_req_create_payment_data
                 else Inr input_data_dict0)
              else
                (if input_data_dict0 = PNone then Inl (KeyError ''Missing input request parameters'')
                 else Inr input_data_dict0))
             (\<lambda>input_data_dict.
           and_then (py_bind (as_kwargs input_data_dict) validate_create_payment_input)
          (py_bind (py_getitem input_data_dict ''currency'') (\<lambda>currency.
           if currency \<noteq> PStr ''EUR'' then
             Inl (ValueError ''Invalid currency value. Support only EUR.'')
           else
           py_bind (py_getitem input_data_dict ''language'') (\<lambda>language.
           and_then (validate_language_code2 language)
          (py_bind (py_getitem input_data_dict ''customer'') (\<lambda>customer_dict.
           if \<not> is_dict customer_dict then Inl (ValueError ''Invalid data type for customer key'')
           else
           py_bind (py_getitem input_data_dict ''invoicingAddress'') (\<lambda>invoicingAddress.
           and_then (validate_address_value_in_create_payment invoicingAddress)
          (py_bind (py_getitem input_data_dict ''deliveryAddress'') (\<lambda>deliveryAddress.
           and_then (validate_address_value_in_create_payment deliveryAddress)
          (py_bind (py_getitem input_data_dict ''items'') (\<lambda>items.
           and_then (validate_item_data_in_create_payment items)
          (py_bind (py_getitem input_data_dict ''redirectUrls'') (\<lambda>redirectUrls.
           and_then (validate_callback_urls_data redirectUrls)
          (py_bind (py_getitem input_data_dict ''callbackUrls'') (\<lambda>callbackUrls.
           and_then (validate_callback_urls_data callbackUrls)
          (py_bind (get_post_url self ''Payments'' PNone) (\<lambda>post_url.
           py_bind (get_req_header_dict self now ''Payments'' ''POST'' request_id PNone
                      time_stamp_string) (\<lambda>headers_dict.
           py_bind (get_hash_sha256 self \<lparr>kw_headers = Some headers_dict, kw_body = Some None\<rparr>)
             (\<lambda>signature.
           let headers_dict = dict_setitem headers_dict ''signature'' (PStr signature);
               headers_dict = dict_setitem headers_dict ''Content-Type''
                                (PStr ''application/json; charset=utf-8'');
               headers_dict = dict_setitem headers_dict ''Accept'' (PStr ''application/json'')
           in Inr (post_url, input_data_dict)))))))))))))))))))))
      of
        Inl e \<Rightarrow> (Inl e, net)
      | Inr (post_url, input_data_dict) \<Rightarrow> send_request ''POST'' post_url input_data_dict [] net)"

section \<open>Sequencing lemmas\<close>

lemma py_bind_simps:
  "py_bind (Inl e) k = Inl e"
  "py_bind (Inr v) k = k v"
  by (simp_all add: py_bind_def)

lemma and_then_simps:
  "and_then (Inl e) k = Inl e"
  "and_then (Inr u) k = k"
  by (simp_all add: and_then_def)

section \<open>Construction of the client\<close>

text \<open>
  Claim C3, as the specification states it: live mode fails with a missing-credential error
  whenever the account id or the secret key is absent or empty. The constructor tests
  \<^verbatim>\<open>merchant_id is None\<close> and \<^verbatim>\<open>secret_key is None\<close> and nothing else: with both credentials
  the empty string, construction in live mode (\<open>is_test_mode = 0\<close>) succeeds and stores them.
\<close>

theorem CheckoutCli_init_empty_credentials_counterexample:
  "CheckoutCli_init 0 (Some '''') (Some '''') =
     Inr \<lparr>self_is_test_mode = 0,
          self_base_api_end_point = ''https://api.checkout.fi'',
          self_merchant_id = '''',
          self_secret_key = '''',
          self_algorithm = ''sha256'',
          self_accepted_api_type = [''Payments'', ''PaymentDetails'', ''Refund'', ''ListProviders'']\<rparr>"
  by (simp add: CheckoutCli_init_def)

text \<open>
  Claim C3, amended: in live mode (\<open>is_test_mode\<close> other than 1) construction fails with
  \<^verbatim>\<open>KeyError\<close>, the missing-credential error, whenever the account id or the secret key is
  absent (\<^verbatim>\<open>None\<close>); with both supplied, the empty string included, it succeeds and keeps
  them as given. In test mode it succeeds whatever is supplied, nothing included, and the
  client holds the sandbox values \<^verbatim>\<open>375917\<close> and \<^verbatim>\<open>SAIPPUAKAUPPIAS\<close>.
\<close>

theorem CheckoutCli_init_credentials:
  "(is_test_mode \<noteq> 1 \<and> (merchant_id = None \<or> secret_key = None) \<longrightarrow>
      (\<exists>msg. CheckoutCli_init is_test_mode merchant_id secret_key = Inl (KeyError msg)))
   \<and> (is_test_mode \<noteq> 1 \<longrightarrow>
        (\<exists>self. CheckoutCli_init is_test_mode (Some m) (Some s) = Inr self
                \<and> self_merchant_id self = m \<and> self_secret_key self = s))
   \<and> (\<exists>self. CheckoutCli_init 1 merchant_id secret_key = Inr self
              \<and> self_merchant_id self = ''375917''
              \<and> self_secret_key self = ''SAIPPUAKAUPPIAS'')"
  by (auto simp: CheckoutCli_init_def split: option.splits)

theorem CheckoutCli_init_credentials_witness:
  "(\<exists>msg. CheckoutCli_init 0 None (Some ''secret'') = Inl (KeyError msg))
   \<and> (\<exists>msg. CheckoutCli_init 0 (Some ''12345'') None = Inl (KeyError msg))
   \<and> (\<exists>self. CheckoutCli_init 0 (Some '''') (Some ''secret'') = Inr self
              \<and> self_merchant_id self = '''' \<and> self_secret_key self = ''secret'')
   \<and> (\<exists>self. CheckoutCli_init 1 (Some ''12345'') (Some ''secret'') = Inr self
              \<and> self_merchant_id self = ''375917''
              \<and> self_secret_key self = ''SAIPPUAKAUPPIAS'')"
  using CheckoutCli_init_credentials
          [where is_test_mode = 0 and merchant_id = None and secret_key = "Some ''secret''"
             and m = "''''" and s = "''secret''"]
        CheckoutCli_init_credentials
          [where is_test_mode = 0 and merchant_id = "Some ''12345''" and secret_key = None
             and m = "''''" and s = "''secret''"]
        CheckoutCli_init_credentials
          [where is_test_mode = 0 and merchant_id = "Some ''12345''"
             and secret_key = "Some ''secret''" and m = "''''" and s = "''secret''"]
  by simp

section \<open>The URL of an operation\<close>

text \<open>
  Claim C4: the four operations map to \<^verbatim>\<open>{base}/payments\<close>,
  \<^verbatim>\<open>{base}/payments/{transactionId}\<close>, \<^verbatim>\<open>{base}/payments/{transactionId}/refund\<close> and
  \<^verbatim>\<open>{base}/merchants/payment-providers\<close>, where \<open>base\<close> is the client's end point; the
  builder fails with \<^verbatim>\<open>ValueError\<close>, the missing-parameter error, exactly when the operation
  is \<^verbatim>\<open>PaymentDetails\<close> or \<^verbatim>\<open>Refund\<close> and the transaction id is \<^verbatim>\<open>None\<close> or the empty string;
  \<^verbatim>\<open>Payments\<close> and \<^verbatim>\<open>ListProviders\<close> give their URL whatever the transaction id is.
\<close>

theorem get_post_url_endpoints:
  "get_post_url self ''Payments'' tid = Inr (Some (self_base_api_end_point self @ ''/payments''))
   \<and> get_post_url self ''ListProviders'' tid
       = Inr (Some (self_base_api_end_point self @ ''/merchants/payment-providers''))
   \<and> get_post_url self ''PaymentDetails'' (PStr t)
       = (if t = [] then Inl (ValueError ''Undefined transaction id'')
          else Inr (Some (self_base_api_end_point self @ ''/payments/'' @ t)))
   \<and> get_post_url self ''Refund'' (PStr t)
       = (if t = [] then Inl (ValueError ''Undefined transaction id'')
          else Inr (Some (self_base_api_end_point self @ ''/payments/'' @ t @ ''/refund'')))
   \<and> get_post_url self ''PaymentDetails'' PNone = Inl (ValueError ''Undefined transaction id'')
   \<and> get_post_url self ''Refund'' PNone = Inl (ValueError ''Undefined transaction id'')
   \<and> ((\<exists>msg. get_post_url self api_type tid = Inl (ValueError msg))
        \<longleftrightarrow> (api_type = ''PaymentDetails'' \<or> api_type = ''Refund'')
            \<and> (tid = PNone \<or> tid = PStr ''''))"
  by (cases tid)
     (auto simp: get_post_url_def validate_trans_id_data_def py_bind_simps and_then_simps)


theorem get_post_url_endpoints_witness:
  "get_post_url \<lparr>self_is_test_mode = 1,
        self_base_api_end_point = ''https://api.checkout.fi'',
        self_merchant_id = ''375917'',
        self_secret_key = ''SAIPPUAKAUPPIAS'',
        self_algorithm = ''sha256'',
        self_accepted_api_type = [''Payments'', ''PaymentDetails'', ''Refund'', ''ListProviders'']\<rparr>
      ''Refund'' (PStr ''tx-42'')
     = Inr (Some ''https://api.checkout.fi/payments/tx-42/refund'')
   \<and> get_post_url \<lparr>self_is_test_mode = 1,
        self_base_api_end_point = ''https://api.checkout.fi'',
        self_merchant_id = ''375917'',
        self_secret_key = ''SAIPPUAKAUPPIAS'',
        self_algorithm = ''sha256'',
        self_accepted_api_type = [''Payments'', ''PaymentDetails'', ''Refund'', ''ListProviders'']\<rparr>
      ''PaymentDetails'' (PStr '''')
     = Inl (ValueError ''Undefined transaction id'')"
  using get_post_url_endpoints
          [where t = "''tx-42''" and self = "\<lparr>self_is_test_mode = 1,
        self_base_api_end_point = ''https://api.checkout.fi'',
        self_merchant_id = ''375917'',
        self_secret_key = ''SAIPPUAKAUPPIAS'',
        self_algorithm = ''sha256'',
        self_accepted_api_type = [''Payments'', ''PaymentDetails'', ''Refund'', ''ListProviders'']\<rparr>"]
        get_post_url_endpoints
          [where t = "''''" and self = "\<lparr>self_is_test_mode = 1,
        self_base_api_end_point = ''https://api.checkout.fi'',
        self_merchant_id = ''375917'',
        self_secret_key = ''SAIPPUAKAUPPIAS'',
        self_algorithm = ''sha256'',
        self_accepted_api_type = [''Payments'', ''PaymentDetails'', ''Refund'', ''ListProviders'']\<rparr>"]
  by simp

section \<open>The request headers\<close>

text \<open>
  Claim C10: a call of the header builder with a \<open>time_stamp_string\<close> other than \<^verbatim>\<open>None\<close>
  always fails: once the tests of \<open>api_type\<close> and \<open>trans_id\<close> are passed it reads the local
  \<^verbatim>\<open>time_stamp\<close>, which is assigned only when \<open>time_stamp_string\<close> is \<^verbatim>\<open>None\<close>, and raises
  \<^verbatim>\<open>UnboundLocalError\<close>. So whenever the builder returns a header set, no time stamp was
  supplied and \<^verbatim>\<open>checkout-timestamp\<close> is the local time the builder read itself.
\<close>

theorem get_req_header_dict_time_stamp:
  "(time_stamp_string \<noteq> PNone \<longrightarrow>
      (\<exists>e. get_req_header_dict self now api_type method request_id trans_id time_stamp_string
             = Inl e)
      \<and> (api_type \<in> set (self_accepted_api_type self)
           \<and> \<not> ((api_type = ''PaymentDetails'' \<or> api_type = ''Refund'') \<and> trans_id = PNone)
          \<longrightarrow> get_req_header_dict self now api_type method request_id trans_id time_stamp_string
              = Inl (UnboundLocalError ''time_stamp'')))
   \<and> (\<forall>header_dict.
        get_req_header_dict self now api_type method request_id trans_id time_stamp_string
          = Inr header_dict
        \<longrightarrow> time_stamp_string = PNone
            \<and> map_of header_dict ''checkout-timestamp'' = Some (PStr now))"
  by (auto simp: get_req_header_dict_def Let_def split: if_splits)

theorem get_req_header_dict_time_stamp_witness:
  "get_req_header_dict
      \<lparr>self_is_test_mode = 1,
       self_base_api_end_point = ''https://api.checkout.fi'',
       self_merchant_id = ''375917'',
       self_secret_key = ''SAIPPUAKAUPPIAS'',
       self_algorithm = ''sha256'',
       self_accepted_api_type = [''Payments'', ''PaymentDetails'', ''Refund'', ''ListProviders'']\<rparr>
      ''2018-07-06T102158'' ''Payments'' ''POST'' (PStr ''564635208570151'') PNone
      (PStr ''2018-07-06T10:01:31.904Z'')
     = Inl (UnboundLocalError ''time_stamp'')
   \<and> (\<exists>header_dict.
        get_req_header_dict
          \<lparr>self_is_test_mode = 1,
           self_base_api_end_point = ''https://api.checkout.fi'',
           self_merchant_id = ''375917'',
           self_secret_key = ''SAIPPUAKAUPPIAS'',
           self_algorithm = ''sha256'',
           self_accepted_api_type = [''Payments'', ''PaymentDetails'', ''Refund'', ''ListProviders'']\<rparr>
          ''2018-07-06T102158'' ''Payments'' ''POST'' (PStr ''564635208570151'') PNone PNone
          = Inr header_dict
        \<and> map_of header_dict ''checkout-timestamp'' = Some (PStr ''2018-07-06T102158''))"
  using get_req_header_dict_time_stamp
          [of "PStr ''2018-07-06T10:01:31.904Z''"
              "\<lparr>self_is_test_mode = 1,
               self_base_api_end_point = ''https://api.checkout.fi'',
               self_merchant_id = ''375917'',
               self_secret_key = ''SAIPPUAKAUPPIAS'',
               self_algorithm = ''sha256'',
               self_accepted_api_type =
                 [''Payments'', ''PaymentDetails'', ''Refund'', ''ListProviders'']\<rparr>"
              "''2018-07-06T102158''" "''Payments''" "''POST''" "PStr ''564635208570151''" PNone]
        get_req_header_dict_time_stamp
          [of PNone
              "\<lparr>self_is_test_mode = 1,
               self_base_api_end_point = ''https://api.checkout.fi'',
               self_merchant_id = ''375917'',
               self_secret_key = ''SAIPPUAKAUPPIAS'',
               self_algorithm = ''sha256'',
               self_accepted_api_type =
                 [''Payments'', ''PaymentDetails'', ''Refund'', ''ListProviders'']\<rparr>"
              "''2018-07-06T102158''" "''Payments''" "''POST''" "PStr ''564635208570151''" PNone]
  by (simp add: get_req_header_dict_def)

section \<open>The response of the server\<close>

text \<open>
  Claim C8, as the specification states it: a status other than 200 and 201 fails with an
  error that carries the status code and the raw body. The source raises
  \<^verbatim>\<open>Exception(error_text)\<close> with \<open>error_text\<close> the body: the responses 400 and 500 with the
  same body give the same error, so the status code is not in it.
\<close>

theorem send_request_status_not_carried_counterexample:
  "fst (send_request ''POST'' (Some ''https://api.checkout.fi/payments'') PNone []
          \<lparr>pending = [\<lparr>status_code = 400, content = ''{\"error\":\"bad request\"}''\<rparr>], sent = []\<rparr>)
     = Inl (Exception ''{\"error\":\"bad request\"}'')
   \<and> fst (send_request ''POST'' (Some ''https://api.checkout.fi/payments'') PNone []
          \<lparr>pending = [\<lparr>status_code = 500, content = ''{\"error\":\"bad request\"}''\<rparr>], sent = []\<rparr>)
     = Inl (Exception ''{\"error\":\"bad request\"}'')"
  by (simp add: send_request_def requests_send_def)

text \<open>
  Claim C8, amended: given a URL, \<open>send_request\<close> sends exactly one request, with the URL,
  the headers and the data it was given; when the server answers with status 200 or 201 the
  response is returned as it is, and for any other status the call fails with an
  \<^verbatim>\<open>Exception\<close> that carries the raw response body and nothing else. The request is not
  sent again: the responses after the first stay pending.
\<close>

theorem send_request_response:
  assumes "url \<noteq> []" and "pending net = res_obj # rest"
  shows "\<exists>rq. send_request send_method (Some url) req_input headers net =
           ((if status_code res_obj = 200 \<or> status_code res_obj = 201 then Inr res_obj
             else Inl (Exception (content res_obj))),
            net\<lparr>pending := rest, sent := sent net @ [rq]\<rparr>)
          \<and> req_url rq = url \<and> req_headers rq = headers \<and> req_data rq = req_input"
  using assms by (auto simp: send_request_def requests_send_def Let_def)

theorem send_request_response_witness:
  "(\<exists>rq. send_request ''POST'' (Some ''https://api.checkout.fi/payments'') (PStr ''{}'') []
           \<lparr>pending = [\<lparr>status_code = 400, content = ''{\"error\":\"bad request\"}''\<rparr>,
                       \<lparr>status_code = 200, content = ''{}''\<rparr>],
            sent = []\<rparr>
         = (Inl (Exception ''{\"error\":\"bad request\"}''),
            \<lparr>pending = [\<lparr>status_code = 200, content = ''{}''\<rparr>], sent = [rq]\<rparr>))
   \<and> (\<exists>rq. send_request ''GET'' (Some ''https://api.checkout.fi/merchants/payment-providers'')
           PNone []
           \<lparr>pending = [\<lparr>status_code = 200, content = ''[]''\<rparr>], sent = []\<rparr>
         = (Inr \<lparr>status_code = 200, content = ''[]''\<rparr>, \<lparr>pending = [], sent = [rq]\<rparr>))"
  using send_request_response
          [where url = "''https://api.checkout.fi/payments''"
             and net = "\<lparr>pending = [\<lparr>status_code = 400, content = ''{\"error\":\"bad request\"}''\<rparr>,
                                    \<lparr>status_code = 200, content = ''{}''\<rparr>],
                         sent = []\<rparr>"
             and res_obj = "\<lparr>status_code = 400, content = ''{\"error\":\"bad request\"}''\<rparr>"
             and rest = "[\<lparr>status_code = 200, content = ''{}''\<rparr>]"
             and send_method = "''POST''" and req_input = "PStr ''{}''" and headers = "[]"]
        send_request_response
          [where url = "''https://api.checkout.fi/merchants/payment-providers''"
             and net = "\<lparr>pending = [\<lparr>status_code = 200, content = ''[]''\<rparr>], sent = []\<rparr>"
             and res_obj = "\<lparr>status_code = 200, content = ''[]''\<rparr>"
             and rest = "[]"
             and send_method = "''GET''" and req_input = PNone and headers = "[]"]
  by auto


section \<open>The currency stage of payment creation\<close>

lemma check_keys_present_value:
  "check_keys_present keyList kwargs = Inr () \<Longrightarrow> key \<in> set keyList
   \<Longrightarrow> \<exists>v. map_of kwargs key = Some v \<and> v \<noteq> PNone"
  by (induction keyList) (auto simp: Let_def split: if_splits option.splits)

lemma validate_create_payment_input_value:
  assumes "validate_create_payment_input kwargs = Inr ()"
    and "key \<in> set get_create_payment_keys"
  shows "\<exists>v. map_of kwargs key = Some v \<and> v \<noteq> PNone"
  using assms check_keys_present_value [of get_create_payment_keys kwargs key]
  by (simp add: validate_create_payment_input_def split: if_splits)

lemma py_contains_error: "py_contains v key = Inl e \<Longrightarrow> \<exists>msg. e = TypeError msg"
  by (cases v) auto

lemma py_getitem_error:
  "py_getitem v key = Inl e \<Longrightarrow> (\<exists>msg. e = TypeError msg) \<or> (\<exists>msg. e = KeyError msg)"
  by (cases v) (auto split: option.splits)

text \<open>\<open>validate_data_dict\<close> raises \<^verbatim>\<open>KeyError\<close> or \<^verbatim>\<open>TypeError\<close>, never \<^verbatim>\<open>ValueError\<close>.\<close>

lemma check_data_keys_error:
  "check_data_keys key_dict data_dict = Inl e \<Longrightarrow> e \<noteq> ValueError msg"
proof (induction key_dict data_dict rule: check_data_keys.induct)
  case (1 data_dict)
  then show ?case by simp
next
  case (2 key mandatory key_dict data_dict)
  show ?case
  proof (cases mandatory)
    case False
    with 2 show ?thesis by simp
  next
    case True
    note m = True
    show ?thesis
    proof (cases "py_contains data_dict key")
      case (Inl e')
      with 2 m show ?thesis by (auto simp: py_bind_simps dest: py_contains_error)
    next
      case (Inr present)
      note p = Inr
      show ?thesis
      proof (cases present)
        case False
        with 2 m p show ?thesis by (auto simp: py_bind_simps)
      next
        case True
        note pr = True
        show ?thesis
        proof (cases "py_getitem data_dict key")
          case (Inl e')
          with 2 m p pr show ?thesis by (auto simp: py_bind_simps dest: py_getitem_error)
        next
          case (Inr v)
          with 2 m p pr show ?thesis by (auto simp: py_bind_simps split: if_splits)
        qed
      qed
    qed
  qed
qed

lemma validate_data_dict_error:
  "validate_data_dict key_dict data_dict = Inl e \<Longrightarrow> e \<noteq> ValueError msg"
  by (cases key_dict)
     (auto simp: validate_data_dict_def split: if_splits dest: check_data_keys_error)

text \<open>The address check fails on every input: with the error of \<open>validate_data_dict\<close>, or
  with the \<^verbatim>\<open>NameError\<close> of the line after it.\<close>

lemma validate_address_value_in_create_payment_raises:
  "\<exists>e. validate_address_value_in_create_payment data_dict = Inl e \<and> (\<forall>msg. e \<noteq> ValueError msg)"
proof (cases "data_dict = PNone")
  case True
  then show ?thesis by (simp add: validate_address_value_in_create_payment_def)
next
  case False
  let ?keySet = "[(''streetAddress'', True), (''postalCode'', True), (''city'', True),
                  (''county'', False), (''country'', True)]"
  show ?thesis
  proof (cases "validate_data_dict (Some ?keySet) data_dict")
    case (Inl e)
    with False validate_data_dict_error [OF Inl] show ?thesis
      by (simp add: validate_address_value_in_create_payment_def and_then_simps)
  next
    case (Inr u)
    with False show ?thesis
      by (simp add: validate_address_value_in_create_payment_def and_then_simps)
  qed
qed

lemma validate_language_code2_error:
  "validate_language_code2 language = Inl e
   \<Longrightarrow> e \<noteq> ValueError ''Invalid currency value. Support only EUR.''"
  by (cases language) (auto simp: validate_language_code2_def split: if_splits)

text \<open>A payload with a key \<^verbatim>\<open>self\<close> is refused by the call of the presence check itself,
  before the currency is read.\<close>

lemma create_payment_self_key:
  "request_id \<noteq> PNone \<Longrightarrow> map_of kwargs ''self'' \<noteq> None
   \<Longrightarrow> \<exists>msg. create_payment self now request_id (PDict kwargs) time_stamp_string net
             = (Inl (TypeError msg), net)"
  by (auto simp: create_payment_def py_bind_simps and_then_simps)

text \<open>
  Claim C9: for a call with a request id and a payload that passes the presence stage (no
  key \<^verbatim>\<open>self\<close>, which the call of \<open>validate_create_payment_input\<close> refuses, and the eleven
  top-level keys there, none \<^verbatim>\<open>None\<close>), a currency that is not exactly the string \<^verbatim>\<open>EUR\<close> is
  rejected with the \<^verbatim>\<open>ValueError\<close> of the currency stage, the unsupported-currency error,
  before anything is sent. With the currency \<^verbatim>\<open>EUR\<close> the payload passes the stage: the call
  is not rejected with that error, whatever the later stages do, and the language stage
  comes next, so that a language it refuses ends the call with the error of the language
  check.
\<close>

theorem create_payment_currency:
  assumes "request_id \<noteq> PNone"
    and "map_of kwargs ''self'' = None"
    and "validate_create_payment_input kwargs = Inr ()"
  shows "(map_of kwargs ''currency'' \<noteq> Some (PStr ''EUR'') \<longrightarrow>
            create_payment self now request_id (PDict kwargs) time_stamp_string net
              = (Inl (ValueError ''Invalid currency value. Support only EUR.''), net))
       \<and> (map_of kwargs ''currency'' = Some (PStr ''EUR'') \<longrightarrow>
            fst (create_payment self now request_id (PDict kwargs) time_stamp_string net)
              \<noteq> Inl (ValueError ''Invalid currency value. Support only EUR.'')
            \<and> (\<forall>language e.
                  map_of kwargs ''language'' = Some language
                  \<and> validate_language_code2 language = Inl e
                  \<longrightarrow> create_payment self now request_id (PDict kwargs) time_stamp_string net
                      = (Inl e, net)))"
proof -
  have keys: "\<And>key. key \<in> set get_create_payment_keys
                \<Longrightarrow> \<exists>v. map_of kwargs key = Some v \<and> v \<noteq> PNone"
    using assms(3) by (rule validate_create_payment_input_value)
  have presence: "py_bind (as_kwargs (PDict kwargs)) validate_create_payment_input = Inr ()"
    using assms(2,3) by (simp add: py_bind_simps)
  obtain currency where currency: "map_of kwargs ''currency'' = Some currency"
    using keys [of "''currency''"] by (auto simp: get_create_payment_keys_def)
  obtain language where language: "map_of kwargs ''language'' = Some language"
    using keys [of "''language''"] by (auto simp: get_create_payment_keys_def)
  obtain customer where customer: "map_of kwargs ''customer'' = Some customer"
    using keys [of "''customer''"] by (auto simp: get_create_payment_keys_def)
  obtain address where address: "map_of kwargs ''invoicingAddress'' = Some address"
    using keys [of "''invoicingAddress''"] by (auto simp: get_create_payment_keys_def)
  obtain e where e: "validate_address_value_in_create_payment address = Inl e"
      "\<forall>msg. e \<noteq> ValueError msg"
    using validate_address_value_in_create_payment_raises by blast
  have rejected: "create_payment self now request_id (PDict kwargs) time_stamp_string net
      = (Inl (ValueError ''Invalid currency value. Support only EUR.''), net)"
    if "currency \<noteq> PStr ''EUR''"
    using that assms(1) presence currency
    by (simp add: create_payment_def py_bind_simps and_then_simps)
  have language_stage:
    "create_payment self now request_id (PDict kwargs) time_stamp_string net = (Inl e', net)"
    if "currency = PStr ''EUR''" and "validate_language_code2 language = Inl e'" for e'
    using that assms(1) presence currency language
    by (simp add: create_payment_def py_bind_simps and_then_simps)
  have passed: "fst (create_payment self now request_id (PDict kwargs) time_stamp_string net)
      \<noteq> Inl (ValueError ''Invalid currency value. Support only EUR.'')"
    if "currency = PStr ''EUR''"
  proof (cases "validate_language_code2 language")
    case (Inl e')
    with that language_stage [OF that Inl] validate_language_code2_error [OF Inl] show ?thesis
      by simp
  next
    case (Inr u)
    with that assms(1) presence currency language customer address e show ?thesis
      by (simp add: create_payment_def py_bind_simps and_then_simps)
  qed
  from rejected passed language_stage currency language show ?thesis by auto
qed

theorem create_payment_currency_witness:
  "create_payment
      \<lparr>self_is_test_mode = 0,
       self_base_api_end_point = ''https://api.checkout.fi'',
       self_merchant_id = ''12345'',
       self_secret_key = ''secret'',
       self_algorithm = ''sha256'',
       self_accepted_api_type = [''Payments'', ''PaymentDetails'', ''Refund'', ''ListProviders'']\<rparr>
      ''2018-07-06T102158'' (PStr ''564635208570151'')
      (PDict [(''stamp'', PInt 1), (''reference'', PInt 2), (''amount'', PInt 1590),
              (''currency'', PStr ''USD''), (''language'', PStr ''FI''),
              (''items'', PList []), (''customer'', PDict []),
              (''deliveryAddress'', PDict []), (''invoicingAddress'', PDict []),
              (''redirectUrls'', PDict []), (''callbackUrls'', PDict [])])
      PNone \<lparr>pending = [], sent = []\<rparr>
     = (Inl (ValueError ''Invalid currency value. Support only EUR.''),
        \<lparr>pending = [], sent = []\<rparr>)
   \<and> create_payment
      \<lparr>self_is_test_mode = 0,
       self_base_api_end_point = ''https://api.checkout.fi'',
       self_merchant_id = ''12345'',
       self_secret_key = ''secret'',
       self_algorithm = ''sha256'',
       self_accepted_api_type = [''Payments'', ''PaymentDetails'', ''Refund'', ''ListProviders'']\<rparr>
      ''2018-07-06T102158'' (PStr ''564635208570151'')
      (PDict [(''stamp'', PInt 1), (''reference'', PInt 2), (''amount'', PInt 1590),
              (''currency'', PStr ''EUR''), (''language'', PStr ''DE''),
              (''items'', PList []), (''customer'', PDict []),
              (''deliveryAddress'', PDict []), (''invoicingAddress'', PDict []),
              (''redirectUrls'', PDict []), (''callbackUrls'', PDict [])])
      PNone \<lparr>pending = [], sent = []\<rparr>
     = (Inl (ValueError ''Invalid value. Support only FI, SV and EN''),
        \<lparr>pending = [], sent = []\<rparr>)"
proof -
  let ?usd = "[(''stamp'', PInt 1), (''reference'', PInt 2), (''amount'', PInt 1590),
              (''currency'', PStr ''USD''), (''language'', PStr ''FI''),
              (''items'', PList []), (''customer'', PDict []),
              (''deliveryAddress'', PDict []), (''invoicingAddress'', PDict []),
              (''redirectUrls'', PDict []), (''callbackUrls'', PDict [])]"
  let ?eur = "[(''stamp'', PInt 1), (''reference'', PInt 2), (''amount'', PInt 1590),
              (''currency'', PStr ''EUR''), (''language'', PStr ''DE''),
              (''items'', PList []), (''customer'', PDict []),
              (''deliveryAddress'', PDict []), (''invoicingAddress'', PDict []),
              (''redirectUrls'', PDict []), (''callbackUrls'', PDict [])]"
  have request_id: "PStr ''564635208570151'' \<noteq> PNone"
    by simp
  have usd_self: "map_of ?usd ''self'' = None"
    by simp
  have eur_self: "map_of ?eur ''self'' = None"
    by simp
  have usd: "validate_create_payment_input ?usd = Inr ()"
    by (simp add: validate_create_payment_input_def get_create_payment_keys_def)
  have eur: "validate_create_payment_input ?eur = Inr ()"
    by (simp add: validate_create_payment_input_def get_create_payment_keys_def)
  have language: "validate_language_code2 (PStr ''DE'')
                    = Inl (ValueError ''Invalid value. Support only FI, SV and EN'')"
    by (simp add: validate_language_code2_def)
  show ?thesis
    using create_payment_currency [OF request_id usd_self usd]
          create_payment_currency [OF request_id eur_self eur] language
    by simp
qed

section \<open>What the signing operation returns\<close>

lemma header_items_raises:
  "keys \<noteq> [] \<Longrightarrow> header_items header_dict keys
     = Inl (TypeError ''list indices must be integers or slices, not str'')"
  by (cases keys) (simp_all add: list_getitem_str_def py_bind_simps)

lemma sort_eq_Nil: "sort xs = [] \<longleftrightarrow> xs = []"
  by (metis length_sort length_0_conv)

text \<open>With any header in the set the first turn of the loop indexes the list of keys with
  a key; with none the call gets as far as \<^verbatim>\<open>sys.version_info\<close>. No call returns a digest.\<close>

lemma get_hash_sha256_nonempty_headers:
  "hs \<noteq> [] \<Longrightarrow> get_hash_sha256 self \<lparr>kw_headers = Some hs, kw_body = body\<rparr>
     = Inl (TypeError ''list indices must be integers or slices, not str'')"
  by (simp add: get_hash_sha256_def Let_def header_items_raises sort_eq_Nil py_bind_simps)

lemma get_hash_sha256_empty_headers:
  "get_hash_sha256 self \<lparr>kw_headers = Some [], kw_body = body\<rparr> = Inl (NameError ''sys'')"
  by (simp add: get_hash_sha256_def Let_def py_bind_simps)

lemma get_hash_sha256_raises: "\<exists>e. get_hash_sha256 self kwargs = Inl e"
proof (cases "kw_headers kwargs")
  case None
  then show ?thesis by (simp add: get_hash_sha256_def)
next
  case (Some hs)
  then have kwargs: "kwargs = \<lparr>kw_headers = Some hs, kw_body = kw_body kwargs\<rparr>"
    by simp
  show ?thesis
  proof (cases "hs = []")
    case True
    with kwargs get_hash_sha256_empty_headers [of self "kw_body kwargs"] show ?thesis
      by auto
  next
    case False
    with kwargs get_hash_sha256_nonempty_headers [of hs self "kw_body kwargs"] show ?thesis
      by auto
  qed
qed

text \<open>
  Claim C1 says that for a header set that is not empty the operation returns the HMAC-SHA256
  digest of the canonical message. Here the client is the one of test mode, the headers are
  the five that \<open>get_req_header_dict\<close> builds for a payment and the body is \<^verbatim>\<open>None\<close>, as
  \<open>create_payment\<close> calls it: the call raises \<^verbatim>\<open>TypeError\<close> and returns no digest.
\<close>

theorem get_hash_sha256_payment_headers:
  "\<exists>self. CheckoutCli_init 1 None None = Inr self
     \<and> get_hash_sha256 self
          \<lparr>kw_headers = Some [(''checkout-account'', PStr ''375917''),
                               (''checkout-algorithm'', PStr ''sha256''),
                               (''checkout-method'', PStr ''POST''),
                               (''checkout-nonce'', PStr ''564635208570151''),
                               (''checkout-timestamp'', PStr ''2018-07-06T102158'')],
           kw_body = Some None\<rparr>
        = Inl (TypeError ''list indices must be integers or slices, not str'')"
  by (simp add: CheckoutCli_init_def get_hash_sha256_nonempty_headers)

section \<open>What payment creation does\<close>

lemma py_bind_raises: "(\<And>v. \<exists>e. k v = Inl e) \<Longrightarrow> \<exists>e. py_bind r k = Inl e"
  by (cases r) (simp_all add: py_bind_simps)

lemma and_then_raises: "\<exists>e. k = Inl e \<Longrightarrow> \<exists>e. and_then r k = Inl e"
  by (cases r) (simp_all add: and_then_simps)

lemma if_raises:
  "(b \<Longrightarrow> \<exists>e. x = Inl e) \<Longrightarrow> (\<not> b \<Longrightarrow> \<exists>e. y = Inl e) \<Longrightarrow> \<exists>e. (if b then x else y) = Inl e"
  by simp

lemma Inl_raises: "\<exists>e. Inl c = Inl e"
  by simp

lemma address_stage_raises:
  "\<exists>e. and_then (validate_address_value_in_create_payment data_dict) k = Inl e"
  using validate_address_value_in_create_payment_raises [of data_dict]
  by (auto simp: and_then_simps)

lemma case_sum_raises:
  "\<exists>e. x = Inl e \<Longrightarrow> \<exists>e. (case x of Inl e \<Rightarrow> (Inl e, net) | Inr p \<Rightarrow> f p) = (Inl e, net)"
  by auto

text \<open>No call of \<open>create_payment\<close> gets past the check of the invoicing address, so every
  call fails and none sends a request.\<close>

lemma create_payment_never_sends:
  "\<exists>e. create_payment self now request_id input_data_dict time_stamp_string net = (Inl e, net)"
  unfolding create_payment_def
  by (rule case_sum_raises)
     (intro address_stage_raises if_raises Inl_raises py_bind_raises and_then_raises)

text \<open>
  Claim C2 says that the signature, \<^verbatim>\<open>Content-Type\<close> and \<^verbatim>\<open>Accept\<close> are merged into the
  headers and that the request is sent with them. Here the client of test mode creates a
  payment from the canned payload, with a server ready to answer 201: the call raises
  \<^verbatim>\<open>NameError\<close> in the address check, the response is still pending and nothing was sent.
\<close>

theorem create_payment_test_mode_call:
  "\<exists>self. CheckoutCli_init 1 None None = Inr self
     \<and> create_payment self ''2018-07-06T102158'' (PStr ''564635208570151'') PNone PNone
          \<lparr>pending = [\<lparr>status_code = 201, content = ''{}''\<rparr>], sent = []\<rparr>
        = (Inl (NameError ''value''),
           \<lparr>pending = [\<lparr>status_code = 201, content = ''{}''\<rparr>], sent = []\<rparr>)"
  by (simp add: CheckoutCli_init_def create_payment_def get_test_req_create_payment_data_def
        validate_create_payment_input_def get_create_payment_keys_def
        validate_language_code2_def
        validate_address_value_in_create_payment_def validate_data_dict_def
        py_bind_simps and_then_simps)

text \<open>
  Claim C5 says that a customer without \<^verbatim>\<open>email\<close> stops validation with the
  missing-mandatory-key error before any address is checked. The helper that tests the
  customer's keys does raise it, and \<open>create_payment\<close> does not call the helper: for a
  payload with such a customer the call goes on to the address check and fails there.
\<close>

theorem create_payment_customer_without_email:
  "validate_customer_key_value_in_create_payment
      (PDict [(''firstName'', PStr ''John''), (''lastName'', PStr ''Doe'')])
     = Inl (KeyError ''Missing mandatory key: email'')
   \<and> (\<exists>self. CheckoutCli_init 1 None None = Inr self
        \<and> create_payment self ''2018-07-06T102158'' (PStr ''564635208570151'')
            (PDict
              [(''stamp'', PInt 29858472952),
               (''reference'', PInt 9187445),
               (''amount'', PInt 1590),
               (''currency'', PStr ''EUR''),
               (''language'', PStr ''FI''),
               (''items'', PList
                  [PDict [(''unitPrice'', PInt 1590), (''units'', PInt 1),
                          (''vatPercentage'', PInt 24), (''productCode'', PStr ''#927502759''),
                          (''deliveryDate'', PStr ''2018-03-07'')]]),
               (''customer'', PDict [(''firstName'', PStr ''John''), (''lastName'', PStr ''Doe'')]),
               (''deliveryAddress'', PDict
                  [(''streetAddress'', PStr ''Fake street 123''), (''postalCode'', PStr ''00100''),
                   (''city'', PStr ''Helsinki''), (''country'', PStr ''FI'')]),
               (''invoicingAddress'', PDict
                  [(''streetAddress'', PStr ''Fake street 123''), (''postalCode'', PStr ''00100''),
                   (''city'', PStr ''Helsinki''), (''country'', PStr ''FI'')]),
               (''redirectUrls'', PDict
                  [(''success'', PStr ''https://ecom.example.org/success''),
                   (''cancel'', PStr ''https://ecom.example.org/cancel'')]),
               (''callbackUrls'', PDict
                  [(''success'', PStr ''https://ecom.example.org/success''),
                   (''cancel'', PStr ''https://ecom.example.org/cancel'')])])
            PNone \<lparr>pending = [], sent = []\<rparr>
          = (Inl (NameError ''value''), \<lparr>pending = [], sent = []\<rparr>))"
  by (simp add: validate_customer_key_value_in_create_payment_def
        CheckoutCli_init_def create_payment_def
        validate_create_payment_input_def get_create_payment_keys_def
        validate_language_code2_def
        validate_address_value_in_create_payment_def validate_data_dict_def
        py_bind_simps and_then_simps)

text \<open>
  Claim C6 says that each element of \<^verbatim>\<open>items\<close> is validated on its own and that a
  numeric field that is not an integer gives the invalid-numeric-type error naming it.
  \<open>create_payment\<close> hands the whole list to the validator of one item, which looks for the
  key \<^verbatim>\<open>unitPrice\<close> among the elements of the list: a list of one valid item and a list of
  one item whose \<^verbatim>\<open>unitPrice\<close> is the string \<^verbatim>\<open>15.90\<close> are both refused with
  \<^verbatim>\<open>KeyError\<close> for a missing \<^verbatim>\<open>unitPrice\<close>. Given the item itself, the validator raises the
  error the claim names.
\<close>

theorem validate_item_data_in_create_payment_on_list:
  "validate_item_data_in_create_payment
      (PList [PDict [(''unitPrice'', PInt 1590), (''units'', PInt 1), (''vatPercentage'', PInt 24),
                     (''productCode'', PStr ''#927502759''),
                     (''deliveryDate'', PStr ''2018-03-07'')]])
     = Inl (KeyError ''Missing mandatory key: unitPrice'')
   \<and> validate_item_data_in_create_payment
      (PList [PDict [(''unitPrice'', PStr ''15.90''), (''units'', PInt 1),
                     (''vatPercentage'', PInt 24), (''productCode'', PStr ''#927502759''),
                     (''deliveryDate'', PStr ''2018-03-07'')]])
     = Inl (KeyError ''Missing mandatory key: unitPrice'')
   \<and> validate_item_data_in_create_payment
      (PDict [(''unitPrice'', PStr ''15.90''), (''units'', PInt 1),
              (''vatPercentage'', PInt 24), (''productCode'', PStr ''#927502759''),
              (''deliveryDate'', PStr ''2018-03-07'')])
     = Inl (ValueError ''Expect int value in unitPrice parameter'')"
  by (simp add: validate_item_data_in_create_payment_def validate_data_dict_def
        validate_int_value_def py_bind_simps and_then_simps)

text \<open>
  Claim C7 says that a country longer than two characters is rejected with the
  invalid-country-code error and that an accepted code comes back in upper case. The
  address of the canned payload (country \<^verbatim>\<open>Sweden\<close>) and an address with the country
  \<^verbatim>\<open>fi\<close> both have the four mandatory keys, and both calls raise \<^verbatim>\<open>NameError\<close>: the length
  of the country is never tested and nothing is returned.
\<close>

theorem validate_address_value_in_create_payment_country:
  "validate_address_value_in_create_payment
      (PDict [(''streetAddress'', PStr ''Fake street 123''),
              (''postalCode'', PStr ''00100''),
              (''city'', PStr (''Lule'' @ [CHR 0xE5])),
              (''county'', PStr ''Norrbotten''),
              (''country'', PStr ''Sweden'')])
     = Inl (NameError ''value'')
   \<and> validate_address_value_in_create_payment
      (PDict [(''streetAddress'', PStr ''Fake street 123''),
              (''postalCode'', PStr ''00100''),
              (''city'', PStr ''Helsinki''),
              (''country'', PStr ''fi'')])
     = Inl (NameError ''value'')"
  by (simp add: validate_address_value_in_create_payment_def validate_data_dict_def
        py_bind_simps and_then_simps)

end
